theory Spec2Isabelle
  imports Main
begin

section \<open>The application factory of the Titanic API (src/app.py)\<close>

text \<open>
  The module consists of one function, \<open>create_app\<close>, which builds a Flask application,
  loads a settings object, initialises the database handle, mounts the people blueprint and
  registers three view functions. The collaborators it imports (\<open>app_config\<close>, \<open>db\<close>,
  \<open>people_api\<close>) are defined in other modules, so they are parameters of the model.
\<close>

subsection \<open>Exceptions\<close>

text \<open>
  An exception object, as far as this module can observe it: whether it is an instance of
  the class \<open>Exception\<close> (what the clause \<open>except Exception\<close> tests; \<open>KeyboardInterrupt\<close>,
  \<open>SystemExit\<close> and \<open>GeneratorExit\<close> derive from \<open>BaseException\<close> only) and the value
  of \<open>str(e)\<close>.
\<close>

datatype exc = Exc (isinstance_Exception: bool) (str: string)

subsection \<open>Values returned by view functions\<close>

text \<open>A Python dict literal with string keys, in the order it is written.\<close>

datatype json = JStr string | JObj "(string \<times> json) list"

text \<open>
  A view function of this module returns either a string or a pair of a dict and a status
  code. Flask sends a bare string with status 200 and a dict as a JSON document.
\<close>

datatype rv = Str string | Tuple json int

fun status_code :: "rv \<Rightarrow> int" where
  "status_code (Str s) = 200"
| "status_code (Tuple d c) = c"

fun field :: "string \<Rightarrow> rv \<Rightarrow> json option" where
  "field k (Tuple (JObj kvs) c) = map_of kvs k"
| "field k (Tuple (JStr s) c) = None"
| "field k (Str s) = None"

subsection \<open>The application object\<close>

text \<open>
  The function objects that serve as views: the three defined inside \<open>create_app\<close>, and
  the functions of the blueprint's module. \<open>Blueprint_view fn\<close> is the function object
  \<open>fn\<close>; two different function objects may carry the same name.
\<close>

datatype view = Index | Health_check | Api_index | Blueprint_view string

text \<open>A rule of the URL map: its path, the set of methods it accepts and its endpoint.\<close>

record rule =
  rule_path :: string
  methods :: "string set"
  endpoint :: string

text \<open>
  \<open>config\<close> is \<open>None\<close> while the application holds Flask's defaults and \<open>Some obj\<close> once
  the settings object \<open>obj\<close> has been applied. \<open>url_map\<close> lists the rules in the order of
  their registration; \<open>view_functions\<close> is the dict from endpoint names to views. The rule
  Flask itself adds for static files has its own endpoint and path and is left out.
\<close>

record 'c app =
  config :: "'c option"
  url_map :: "rule list"
  view_functions :: "string \<rightharpoonup> view"

subsection \<open>The collaborators\<close>

text \<open>
  The configuration registry \<open>app_config\<close>: its entries, and the error its subscript
  raises for a key it does not hold.
\<close>

record 'c registry =
  entries :: "string \<rightharpoonup> 'c"
  lookup_failure :: "string \<Rightarrow> exc"

text \<open>
  The database handle \<open>db\<close> over a state \<open>'d\<close>: \<open>db.init_app(app)\<close> and
  \<open>db.session.execute(statement)\<close>. Either may raise; the result of a statement is not
  used by this module.
\<close>

record ('c, 'd) database =
  init_app :: "'c app \<Rightarrow> 'd \<Rightarrow> (exc + unit) \<times> 'd"
  session_execute :: "string \<Rightarrow> 'd \<Rightarrow> (exc + unit) \<times> 'd"

text \<open>
  The blueprint \<open>people\<close>: its name and the routes recorded on it, each a rule, the
  methods given for it, its endpoint (the name of the view function) and the view function
  object itself.
\<close>

record blueprint =
  bp_name :: string
  deferred :: "(string \<times> string list \<times> string \<times> string) list"

subsection \<open>State, calls and sequencing\<close>

text \<open>The calls made to the framework and to the database, in the order they happen.\<close>

datatype 'c call =
    Flask_new
  | Config_from_object 'c
  | Db_init_app
  | Register_blueprint string string
  | Route string "string list" string
  | Session_execute string

record ('c, 'd) world =
  db :: 'd
  calls :: "'c call list"

type_synonym ('a, 'c, 'd) io = "('c, 'd) world \<Rightarrow> (exc + 'a) \<times> ('c, 'd) world"

definition return :: "'a \<Rightarrow> ('a, 'c, 'd) io" where
  "return x w = (Inr x, w)"

text \<open>Statement sequencing: an exception raised by the first statement skips the rest.\<close>

definition bind :: "('a, 'c, 'd) io \<Rightarrow> ('a \<Rightarrow> ('b, 'c, 'd) io) \<Rightarrow> ('b, 'c, 'd) io" where
  "bind m f w = (case m w of (Inl e, w') \<Rightarrow> (Inl e, w') | (Inr x, w') \<Rightarrow> f x w')"

definition log :: "'c call \<Rightarrow> ('c, 'd) world \<Rightarrow> ('c, 'd) world" where
  "log c w = w\<lparr>calls := calls w @ [c]\<rparr>"

subsection \<open>Framework operations used by \<open>create_app\<close>\<close>

definition Flask :: "('c app, 'c, 'd) io" where
  "Flask w = (Inr \<lparr>config = None, url_map = [], view_functions = Map.empty\<rparr>, log Flask_new w)"

text \<open>The subscript \<open>app_config[env_name]\<close>.\<close>

definition getitem :: "'c registry \<Rightarrow> string \<Rightarrow> ('c, 'c, 'd) io" where
  "getitem reg k w =
     (case entries reg k of
        None \<Rightarrow> (Inl (lookup_failure reg k), w)
      | Some obj \<Rightarrow> (Inr obj, w))"

definition from_object :: "'c \<Rightarrow> 'c app \<Rightarrow> ('c app, 'c, 'd) io" where
  "from_object obj app w = (Inr (app\<lparr>config := Some obj\<rparr>), log (Config_from_object obj) w)"

definition db_init_app :: "('c, 'd) database \<Rightarrow> 'c app \<Rightarrow> (unit, 'c, 'd) io" where
  "db_init_app dbo app w =
     (case init_app dbo app (db w) of
        (r, d') \<Rightarrow> (r, log Db_init_app (w\<lparr>db := d'\<rparr>)))"

definition db_session_execute :: "('c, 'd) database \<Rightarrow> string \<Rightarrow> (unit, 'c, 'd) io" where
  "db_session_execute dbo stmt w =
     (case session_execute dbo stmt (db w) of
        (r, d') \<Rightarrow> (r, log (Session_execute stmt) (w\<lparr>db := d'\<rparr>)))"

text \<open>
  The methods of a rule: the names given are put in upper case (a letter from a to z, code
  97 to 122, loses the bit that distinguishes it from its capital), \<open>OPTIONS\<close> is added
  (Flask's automatic options, its default), and a rule that accepts \<open>GET\<close> accepts
  \<open>HEAD\<close> as well.
\<close>

definition upper_char :: "char \<Rightarrow> char" where
  "upper_char c =
     (let n = (of_char c :: nat)
      in if 97 \<le> n \<and> n \<le> 122
         then Char (digit0 c) (digit1 c) (digit2 c) (digit3 c) (digit4 c) False (digit6 c) (digit7 c)
         else c)"

definition upper :: "string \<Rightarrow> string" where
  "upper s = map upper_char s"

definition rule_methods :: "string list \<Rightarrow> string set" where
  "rule_methods ms =
     (let given = set (map upper ms) \<union> {''OPTIONS''}
      in if ''GET'' \<in> given then insert ''HEAD'' given else given)"

text \<open>
  \<open>Flask.add_url_rule\<close>: the rule is appended to the URL map; an endpoint that is already
  bound to a different view function raises \<open>AssertionError\<close>.
\<close>

definition add_url_rule :: "string \<Rightarrow> string list \<Rightarrow> string \<Rightarrow> view \<Rightarrow> 'c app \<Rightarrow> exc + 'c app" where
  "add_url_rule r ms ep vf app =
     (let app' = app\<lparr>url_map := url_map app @
                  [\<lparr>rule_path = r, methods = rule_methods ms, endpoint = ep\<rparr>]\<rparr>
      in case view_functions app' ep of
           None \<Rightarrow> Inr (app'\<lparr>view_functions := (view_functions app')(ep \<mapsto> vf)\<rparr>)
         | Some old \<Rightarrow>
             if old \<noteq> vf
             then Inl (Exc True (''View function mapping is overwriting an existing endpoint function: '' @ ep))
             else Inr (app'\<lparr>view_functions := (view_functions app')(ep \<mapsto> vf)\<rparr>))"

text \<open>
  The decorator \<open>@app.route(rule, methods=ms)\<close> applied to the function named \<open>f\<close>: the
  endpoint is the function's name.
\<close>

definition route :: "string \<Rightarrow> string list \<Rightarrow> string \<Rightarrow> view \<Rightarrow> 'c app \<Rightarrow> ('c app, 'c, 'd) io" where
  "route r ms f vf app w = (add_url_rule r ms f vf app, log (Route r ms f) w)"

text \<open>
  A blueprint mounted under a prefix: the prefix loses its trailing slashes, the rule its
  leading ones, and the two are joined by one slash; an empty rule becomes the prefix.
\<close>

definition join_prefix :: "string \<Rightarrow> string \<Rightarrow> string" where
  "join_prefix prefix r =
     (if r = [] then prefix
      else rev (dropWhile (\<lambda>c. c = CHR ''/'') (rev prefix)) @ ''/'' @ dropWhile (\<lambda>c. c = CHR ''/'') r)"

text \<open>
  Each route of a blueprint is added under the endpoint \<open>name.endpoint\<close>, in the order
  the routes were recorded; the first addition that raises ends the registration.
\<close>

fun register_rules ::
  "string \<Rightarrow> string \<Rightarrow> (string \<times> string list \<times> string \<times> string) list \<Rightarrow> 'c app \<Rightarrow> exc + 'c app" where
  "register_rules name prefix [] app = Inr app"
| "register_rules name prefix ((r, ms, ep, fn) # ds) app =
     (case add_url_rule (join_prefix prefix r) ms (name @ ''.'' @ ep) (Blueprint_view fn) app of
        Inl e \<Rightarrow> Inl e
      | Inr app' \<Rightarrow> register_rules name prefix ds app')"

definition register_blueprint :: "blueprint \<Rightarrow> string \<Rightarrow> 'c app \<Rightarrow> ('c app, 'c, 'd) io" where
  "register_blueprint bp url_prefix app w =
     (register_rules (bp_name bp) url_prefix (deferred bp) app,
      log (Register_blueprint (bp_name bp) url_prefix) w)"

subsection \<open>The view functions\<close>

text \<open>
  A view runs against the application object and the world, and returns a value or raises.
\<close>

type_synonym ('c, 'd) process = "'c app \<times> ('c, 'd) world"

definition welcome_text :: string where
  "welcome_text = [CHR 0x0A] @ ''        Welcome to the Titanic API'' @ [CHR 0x0A] @ ''        ''"

definition index :: "('c, 'd) process \<Rightarrow> (exc + rv) \<times> ('c, 'd) process" where
  "index p = (Inr (Str welcome_text), p)"

definition healthy :: json where
  "healthy = JObj [(''status'', JStr ''healthy''),
                   (''database'', JStr ''connected''),
                   (''service'', JStr ''titanic-api'')]"

definition unhealthy :: "exc \<Rightarrow> json" where
  "unhealthy e = JObj [(''status'', JStr ''unhealthy''),
                       (''database'', JStr ''disconnected''),
                       (''error'', JStr (str e))]"

text \<open>
  \<open>health_check\<close>: the statement is executed once; a normal return gives the healthy
  payload with 200; an exception that is an instance of \<open>Exception\<close> is caught and gives
  the unhealthy payload with 503; any other exception leaves the function.
\<close>

definition health_check :: "('c, 'd) database \<Rightarrow> ('c, 'd) process \<Rightarrow> (exc + rv) \<times> ('c, 'd) process" where
  "health_check dbo p =
     (case p of (app, w) \<Rightarrow>
        (case db_session_execute dbo ''SELECT 1'' w of
           (Inr u, w') \<Rightarrow> (Inr (Tuple healthy 200), (app, w'))
         | (Inl e, w') \<Rightarrow>
             if isinstance_Exception e
             then (Inr (Tuple (unhealthy e) 503), (app, w'))
             else (Inl e, (app, w'))))"

definition api_payload :: json where
  "api_payload = JObj [(''message'', JStr ''Welcome to Titanic API''),
                       (''version'', JStr ''1.0.0''),
                       (''endpoints'', JObj [(''health'', JStr ''/health''),
                                             (''passengers'', JStr ''/api/v1/passengers'')])]"

definition api_index :: "('c, 'd) process \<Rightarrow> (exc + rv) \<times> ('c, 'd) process" where
  "api_index p = (Inr (Tuple api_payload 200), p)"

subsection \<open>\<open>create_app\<close>\<close>

text \<open>
  The statements of \<open>create_app\<close> in their order. In
  \<open>app.config.from_object(app_config[env_name])\<close> the subscript is evaluated before the
  call it is the argument of.
\<close>

definition create_app ::
  "'c registry \<Rightarrow> ('c, 'd) database \<Rightarrow> blueprint \<Rightarrow> string \<Rightarrow> ('c app, 'c, 'd) io" where
  "create_app app_config dbo people env_name =
     bind Flask (\<lambda>app.
     bind (getitem app_config env_name) (\<lambda>obj.
     bind (from_object obj app) (\<lambda>app.
     bind (db_init_app dbo app) (\<lambda>u.
     bind (register_blueprint people ''/'' app) (\<lambda>app.
     bind (route ''/'' [''GET''] ''index'' Index app) (\<lambda>app.
     bind (route ''/health'' [''GET''] ''health_check'' Health_check app) (\<lambda>app.
     bind (route ''/'' [''GET''] ''api_index'' Api_index app) (\<lambda>app.
     return app))))))))"

subsection \<open>Request dispatch\<close>

text \<open>
  Flask matches a request against the URL map: among rules with the same path the one
  registered first is examined first, and the first rule that accepts the method decides
  the endpoint. The endpoint's view function is then called. A rule is compared with the
  request path literally; variable parts of a rule are not interpreted.
\<close>

definition match_request :: "'c app \<Rightarrow> string \<Rightarrow> string \<Rightarrow> rule option" where
  "match_request app method path =
     find (\<lambda>r. rule_path r = path \<and> method \<in> methods r) (url_map app)"

definition dispatch_request :: "'c app \<Rightarrow> string \<Rightarrow> string \<Rightarrow> view option" where
  "dispatch_request app method path =
     (case match_request app method path of
        None \<Rightarrow> None
      | Some r \<Rightarrow> view_functions app (endpoint r))"

text \<open>Calling a view; the views of the blueprint live in another module.\<close>

definition call_view ::
  "('c, 'd) database \<Rightarrow> (string \<Rightarrow> ('c, 'd) process \<Rightarrow> (exc + rv) \<times> ('c, 'd) process) \<Rightarrow>
   view \<Rightarrow> ('c, 'd) process \<Rightarrow> (exc + rv) \<times> ('c, 'd) process" where
  "call_view dbo people_views v p =
     (case v of
        Index \<Rightarrow> index p
      | Health_check \<Rightarrow> health_check dbo p
      | Api_index \<Rightarrow> api_index p
      | Blueprint_view f \<Rightarrow> people_views f p)"

text \<open>Serving one request: \<open>None\<close> when no rule matches.\<close>

definition full_dispatch_request ::
  "('c, 'd) database \<Rightarrow> (string \<Rightarrow> ('c, 'd) process \<Rightarrow> (exc + rv) \<times> ('c, 'd) process) \<Rightarrow>
   string \<Rightarrow> string \<Rightarrow> ('c, 'd) process \<Rightarrow> ((exc + rv) \<times> ('c, 'd) process) option" where
  "full_dispatch_request dbo people_views method path p =
     (case dispatch_request (fst p) method path of
        None \<Rightarrow> None
      | Some v \<Rightarrow> Some (call_view dbo people_views v p))"

section \<open>Notions used in the statements\<close>

text \<open>The rules a blueprint contributes to the URL map when mounted under a prefix.\<close>

definition mounted_rules ::
  "string \<Rightarrow> string \<Rightarrow> (string \<times> string list \<times> string \<times> string) list \<Rightarrow> rule list" where
  "mounted_rules name prefix ds =
     map (\<lambda>(r, ms, ep, fn).
            \<lparr>rule_path = join_prefix prefix r, methods = rule_methods ms, endpoint = name @ ''.'' @ ep\<rparr>) ds"

text \<open>The endpoints a blueprint binds, added to a dict of views in the order of its routes.\<close>

fun bound_views ::
  "string \<Rightarrow> (string \<times> string list \<times> string \<times> string) list \<Rightarrow> (string \<rightharpoonup> view) \<Rightarrow> (string \<rightharpoonup> view)" where
  "bound_views name [] vfs = vfs"
| "bound_views name ((r, ms, ep, fn) # ds) vfs =
     bound_views name ds (vfs(name @ ''.'' @ ep \<mapsto> Blueprint_view fn))"

text \<open>Every key of the dict carries a dot and is bound to a view of the blueprint.\<close>

definition bp_only :: "(string \<rightharpoonup> view) \<Rightarrow> bool" where
  "bp_only vfs = (\<forall>k v. vfs k = Some v \<longrightarrow> CHR ''.'' \<in> set k \<and> (\<exists>fn. v = Blueprint_view fn))"

text \<open>No endpoint of the blueprint is given two different view functions.\<close>

definition consistent :: "(string \<times> string list \<times> string \<times> string) list \<Rightarrow> bool" where
  "consistent ds =
     (\<forall>(r, ms, ep, fn) \<in> set ds. \<forall>(r', ms', ep', fn') \<in> set ds. ep = ep' \<longrightarrow> fn = fn')"

text \<open>Every bound endpoint of the blueprint \<open>name\<close> holds the view one of the routes gives it.\<close>

definition bp_owned ::
  "string \<Rightarrow> (string \<times> string list \<times> string \<times> string) list \<Rightarrow> (string \<rightharpoonup> view) \<Rightarrow> bool" where
  "bp_owned name ds vfs =
     (\<forall>k v. vfs k = Some v \<longrightarrow>
        (\<exists>r ms ep fn. (r, ms, ep, fn) \<in> set ds \<and> k = name @ ''.'' @ ep \<and> v = Blueprint_view fn))"

text \<open>The application as \<open>db.init_app\<close> receives it: configured, without rules.\<close>

definition configured :: "'c \<Rightarrow> 'c app" where
  "configured obj = \<lparr>config = Some obj, url_map = [], view_functions = Map.empty\<rparr>"

text \<open>
  The application as \<open>create_app\<close> returns it for the settings object \<open>obj\<close>: the rules of
  the blueprint come first, then the three rules of this module in the order of the source;
  the endpoints of the blueprint and the three endpoints of this module are bound.
\<close>

definition assembled :: "'c \<Rightarrow> blueprint \<Rightarrow> 'c app" where
  "assembled obj people =
     \<lparr>config = Some obj,
      url_map = mounted_rules (bp_name people) ''/'' (deferred people) @
        [\<lparr>rule_path = ''/'', methods = {''GET'', ''HEAD'', ''OPTIONS''}, endpoint = ''index''\<rparr>,
         \<lparr>rule_path = ''/health'', methods = {''GET'', ''HEAD'', ''OPTIONS''}, endpoint = ''health_check''\<rparr>,
         \<lparr>rule_path = ''/'', methods = {''GET'', ''HEAD'', ''OPTIONS''}, endpoint = ''api_index''\<rparr>],
      view_functions = (bound_views (bp_name people) (deferred people) Map.empty)
        (''index'' \<mapsto> Index, ''health_check'' \<mapsto> Health_check, ''api_index'' \<mapsto> Api_index)\<rparr>"

subsection \<open>Concrete inputs\<close>

text \<open>
  A registry with two environments whose subscript fails as a dict's does; a database whose
  state is a number that its initialisation raises by 100 and each statement by one, every
  statement having a fixed outcome; a blueprint with two routes, and views that answer with
  their own name; a blueprint whose module defines two functions of the same name; and an
  initial world.
\<close>

definition example_registry :: "string registry" where
  "example_registry =
     \<lparr>entries = [''development'' \<mapsto> ''Development'', ''production'' \<mapsto> ''Production''],
      lookup_failure = (\<lambda>k. Exc True ([CHR 0x27] @ k @ [CHR 0x27]))\<rparr>"

definition example_db :: "(exc + unit) \<Rightarrow> (string, nat) database" where
  "example_db outcome =
     \<lparr>init_app = (\<lambda>app d. (Inr (), d + 100)), session_execute = (\<lambda>stmt d. (outcome, Suc d))\<rparr>"

definition example_people :: blueprint where
  "example_people =
     \<lparr>bp_name = ''people'',
      deferred = [(''/people'', [''GET''], ''get_all'', ''get_all''),
                  (''/people'', [''POST''], ''create'', ''create'')]\<rparr>"


definition example_people_views :: "string \<Rightarrow> (string, nat) process \<Rightarrow> (exc + rv) \<times> (string, nat) process" where
  "example_people_views f p = (Inr (Tuple (JObj [(''view'', JStr f)]) 200), p)"

definition example_world :: "(string, nat) world" where
  "example_world = \<lparr>db = 0, calls = []\<rparr>"

definition example_app :: "string app" where
  "example_app = configured ''Development''"

section \<open>Properties of the framework operations\<close>


lemma rule_methods_GET: "rule_methods [''GET''] = {''GET'', ''HEAD'', ''OPTIONS''}"
  by (auto simp add: rule_methods_def upper_def upper_char_def)

text \<open>When \<open>add_url_rule\<close> returns, the endpoint was free or already held the same view.\<close>

lemma add_url_rule_Inr:
  assumes "add_url_rule r ms ep vf app = Inr app'"
  shows "config app' = config app"
    and "url_map app' = url_map app @ [\<lparr>rule_path = r, methods = rule_methods ms, endpoint = ep\<rparr>]"
    and "view_functions app' = (view_functions app)(ep \<mapsto> vf)"
    and "view_functions app ep = None \<or> view_functions app ep = Some vf"
  using assms
  by (auto simp add: add_url_rule_def Let_def split: option.splits if_splits)

lemma add_url_rule_free:
  assumes "view_functions app ep = None \<or> view_functions app ep = Some vf"
  shows "add_url_rule r ms ep vf app =
           Inr (app\<lparr>url_map := url_map app @ [\<lparr>rule_path = r, methods = rule_methods ms, endpoint = ep\<rparr>],
                    view_functions := (view_functions app)(ep \<mapsto> vf)\<rparr>)"
  using assms
  by (auto simp add: add_url_rule_def Let_def split: option.splits)

text \<open>What a registration that returns has done to the application.\<close>

lemma register_rules_result:
  assumes "register_rules name prefix ds app = Inr app'"
  shows "config app' = config app \<and>
         url_map app' = url_map app @ mounted_rules name prefix ds \<and>
         view_functions app' = bound_views name ds (view_functions app)"
  using assms
proof (induction ds arbitrary: app)
  case Nil
  then show ?case by (simp add: mounted_rules_def)
next
  case (Cons d ds)
  obtain r ms ep fn where d: "d = (r, ms, ep, fn)" by (cases d) auto
  from Cons.prems d obtain app1 where
    step: "add_url_rule (join_prefix prefix r) ms (name @ ''.'' @ ep) (Blueprint_view fn) app = Inr app1"
    and rest: "register_rules name prefix ds app1 = Inr app'"
    by (auto split: sum.splits)
  note a = add_url_rule_Inr [OF step]
  from Cons.IH [OF rest] have
    "config app' = config app1"
    "url_map app' = url_map app1 @ mounted_rules name prefix ds"
    "view_functions app' = bound_views name ds (view_functions app1)"
    by simp_all
  with a(1,2,3) d show ?case
    by (simp add: mounted_rules_def)
qed

lemma bp_only_bound_views: "bp_only vfs \<Longrightarrow> bp_only (bound_views name ds vfs)"
proof (induction ds arbitrary: vfs)
  case Nil
  then show ?case by simp
next
  case (Cons d ds)
  obtain r ms ep fn where d: "d = (r, ms, ep, fn)" by (cases d) auto
  have "bp_only (vfs(name @ ''.'' @ ep \<mapsto> Blueprint_view fn))"
    using Cons.prems unfolding bp_only_def by auto
  then have "bp_only (bound_views name ds (vfs(name @ ''.'' @ ep \<mapsto> Blueprint_view fn)))"
    by (rule Cons.IH)
  then show ?case unfolding d by simp
qed

lemma bp_only_no_dot:
  assumes "bp_only vfs" and "CHR ''.'' \<notin> set k"
  shows "vfs k = None"
  using assms unfolding bp_only_def by (cases "vfs k") auto



lemma consistentD:
  assumes "consistent ds" and "(r, ms, ep, fn) \<in> set ds" and "(r', ms', ep, fn') \<in> set ds"
  shows "fn = fn'"
proof -
  from assms(1,2) have "\<forall>(r', ms', ep', fn') \<in> set ds. ep = ep' \<longrightarrow> fn = fn'"
    unfolding consistent_def by fast
  with assms(3) show ?thesis by fast
qed

lemma bp_owned_update:
  assumes "bp_owned name ds vfs" and "(r, ms, ep, fn) \<in> set ds"
  shows "bp_owned name ds (vfs(name @ ''.'' @ ep \<mapsto> Blueprint_view fn))"
  unfolding bp_owned_def
proof (intro allI impI)
  fix k v
  assume b: "(vfs(name @ ''.'' @ ep \<mapsto> Blueprint_view fn)) k = Some v"
  show "\<exists>r ms ep fn. (r, ms, ep, fn) \<in> set ds \<and> k = name @ ''.'' @ ep \<and> v = Blueprint_view fn"
  proof (cases "k = name @ ''.'' @ ep")
    case True
    with b have "v = Blueprint_view fn" by simp
    with True assms(2) show ?thesis by blast
  next
    case False
    with b have "vfs k = Some v" by simp
    with assms(1) show ?thesis unfolding bp_owned_def by blast
  qed
qed

text \<open>
  The registration of a blueprint returns when none of its endpoints is given two different
  view functions.
\<close>

lemma register_rules_consistent:
  assumes "consistent all" and "set ds \<subseteq> set all" and "bp_owned name all (view_functions app)"
  shows "\<exists>app'. register_rules name prefix ds app = Inr app'"
  using assms(2,3)
proof (induction ds arbitrary: app)
  case Nil
  then show ?case by simp
next
  case (Cons d ds)
  obtain r ms ep fn where d: "d = (r, ms, ep, fn)" by (cases d) auto
  with Cons.prems(1) have mem: "(r, ms, ep, fn) \<in> set all" by simp
  have free: "view_functions app (name @ ''.'' @ ep) = None \<or>
              view_functions app (name @ ''.'' @ ep) = Some (Blueprint_view fn)"
  proof (cases "view_functions app (name @ ''.'' @ ep)")
    case None
    then show ?thesis by simp
  next
    case (Some old)
    with Cons.prems(2) obtain r' ms' ep' fn' where
      m': "(r', ms', ep', fn') \<in> set all" and k: "name @ ''.'' @ ep = name @ ''.'' @ ep'"
      and o: "old = Blueprint_view fn'"
      unfolding bp_owned_def by blast
    from k have "ep = ep'" by simp
    with m' have "(r', ms', ep, fn') \<in> set all" by simp
    with assms(1) mem have "fn = fn'"
      by (rule consistentD)
    with Some o show ?thesis by simp
  qed
  let ?app1 = "app\<lparr>url_map := url_map app @
                     [\<lparr>rule_path = join_prefix prefix r, methods = rule_methods ms, endpoint = name @ ''.'' @ ep\<rparr>],
                   view_functions := (view_functions app)(name @ ''.'' @ ep \<mapsto> Blueprint_view fn)\<rparr>"
  have step: "add_url_rule (join_prefix prefix r) ms (name @ ''.'' @ ep) (Blueprint_view fn) app = Inr ?app1"
    using free by (rule add_url_rule_free)
  have "bp_owned name all (view_functions ?app1)"
    using bp_owned_update [OF Cons.prems(2) mem] by simp
  moreover from Cons.prems(1) have "set ds \<subseteq> set all" by simp
  ultimately obtain app' where "register_rules name prefix ds ?app1 = Inr app'"
    using Cons.IH by blast
  with step d show ?case by simp
qed

lemma blueprint_registers:
  assumes "consistent (deferred people)"
  shows "\<exists>app1. register_rules (bp_name people) prefix (deferred people) (configured obj) = Inr app1"
proof -
  have "bp_owned (bp_name people) (deferred people) (view_functions (configured obj))"
    by (simp add: bp_owned_def configured_def)
  with assms show ?thesis
    using register_rules_consistent [of "deferred people" "deferred people"] by blast
qed

section \<open>Properties of \<open>create_app\<close> and of dispatch\<close>

text \<open>
  With a settings object under the key, a database that initialises and a blueprint whose
  registration returns, every statement of \<open>create_app\<close> succeeds: the endpoints of the
  blueprint carry a dot, those of the three views do not, so none of the three
  registrations overwrites an endpoint.
\<close>

lemma create_app_success:
  assumes cfg: "entries reg env_name = Some obj"
    and ini: "fst (init_app dbo (configured obj) (db w)) = Inr ()"
    and reg: "register_rules (bp_name people) ''/'' (deferred people) (configured obj) = Inr app1"
  shows "create_app reg dbo people env_name w =
           (Inr (assembled obj people),
            w\<lparr>db := snd (init_app dbo (configured obj) (db w)),
              calls := calls w @
                [Flask_new, Config_from_object obj, Db_init_app, Register_blueprint (bp_name people) ''/'',
                 Route ''/'' [''GET''] ''index'', Route ''/health'' [''GET''] ''health_check'',
                 Route ''/'' [''GET''] ''api_index'']\<rparr>)"
proof -
  obtain d' where init: "init_app dbo (configured obj) (db w) = (Inr (), d')"
    using ini by (cases "init_app dbo (configured obj) (db w)") auto
  from register_rules_result [OF reg] have
    c1: "config app1 = Some obj"
    and u1: "url_map app1 = mounted_rules (bp_name people) ''/'' (deferred people)"
    and v1: "view_functions app1 = bound_views (bp_name people) (deferred people) Map.empty"
    by (simp_all add: configured_def)
  have only: "bp_only (view_functions app1)"
    unfolding v1 by (rule bp_only_bound_views) (simp add: bp_only_def)
  have n1: "view_functions app1 ''index'' = None"
    by (rule bp_only_no_dot [OF only]) simp
  have n2: "view_functions app1 ''health_check'' = None"
    by (rule bp_only_no_dot [OF only]) simp
  have n3: "view_functions app1 ''api_index'' = None"
    by (rule bp_only_no_dot [OF only]) simp
  have whole: "app1\<lparr>url_map := url_map app1 @
             [\<lparr>rule_path = ''/'', methods = {''GET'', ''HEAD'', ''OPTIONS''}, endpoint = ''index''\<rparr>,
              \<lparr>rule_path = ''/health'', methods = {''GET'', ''HEAD'', ''OPTIONS''}, endpoint = ''health_check''\<rparr>,
              \<lparr>rule_path = ''/'', methods = {''GET'', ''HEAD'', ''OPTIONS''}, endpoint = ''api_index''\<rparr>],
             view_functions := (view_functions app1)
               (''index'' \<mapsto> Index, ''health_check'' \<mapsto> Health_check, ''api_index'' \<mapsto> Api_index)\<rparr>
           = assembled obj people"
    using c1 u1 v1 by (cases app1) (simp add: assembled_def)
  have "create_app reg dbo people env_name w =
           (Inr (app1\<lparr>url_map := url_map app1 @
             [\<lparr>rule_path = ''/'', methods = {''GET'', ''HEAD'', ''OPTIONS''}, endpoint = ''index''\<rparr>,
              \<lparr>rule_path = ''/health'', methods = {''GET'', ''HEAD'', ''OPTIONS''}, endpoint = ''health_check''\<rparr>,
              \<lparr>rule_path = ''/'', methods = {''GET'', ''HEAD'', ''OPTIONS''}, endpoint = ''api_index''\<rparr>],
             view_functions := (view_functions app1)
               (''index'' \<mapsto> Index, ''health_check'' \<mapsto> Health_check, ''api_index'' \<mapsto> Api_index)\<rparr>),
            w\<lparr>db := d',
              calls := calls w @
                [Flask_new, Config_from_object obj, Db_init_app, Register_blueprint (bp_name people) ''/'',
                 Route ''/'' [''GET''] ''index'', Route ''/health'' [''GET''] ''health_check'',
                 Route ''/'' [''GET''] ''api_index'']\<rparr>)"
    using cfg init reg n1 n2 n3
    by (simp add: create_app_def bind_def Flask_def getitem_def from_object_def db_init_app_def
        register_blueprint_def route_def add_url_rule_def return_def log_def configured_def
        rule_methods_GET)
  with whole init show ?thesis by simp
qed

text \<open>
  An application is returned only if the lookup, the initialisation and the registration of
  the blueprint succeeded.
\<close>

lemma create_app_returns_only_if:
  assumes "fst (create_app reg dbo people env_name w) = Inr app"
  shows "\<exists>obj app1. entries reg env_name = Some obj \<and>
           fst (init_app dbo (configured obj) (db w)) = Inr () \<and>
           register_rules (bp_name people) ''/'' (deferred people) (configured obj) = Inr app1"
proof (cases "entries reg env_name")
  case None
  with assms show ?thesis
    by (simp add: create_app_def bind_def Flask_def getitem_def)
next
  case (Some obj)
  obtain r d' where init: "init_app dbo (configured obj) (db w) = (r, d')"
    by (cases "init_app dbo (configured obj) (db w)") auto
  show ?thesis
  proof (cases r)
    case (Inl e)
    with assms Some init show ?thesis
      by (simp add: create_app_def bind_def Flask_def getitem_def from_object_def db_init_app_def
          configured_def log_def)
  next
    case (Inr u)
    show ?thesis
    proof (cases "register_rules (bp_name people) ''/'' (deferred people) (configured obj)")
      case (Inl e)
      with assms Some init Inr show ?thesis
        by (simp add: create_app_def bind_def Flask_def getitem_def from_object_def db_init_app_def
            register_blueprint_def configured_def log_def)
    next
      case (Inr app1)
      with Some init \<open>r = Inr u\<close> show ?thesis by simp
    qed
  qed
qed

lemma find_append_cases:
  "find P (xs @ ys) = (case find P xs of None \<Rightarrow> find P ys | Some x \<Rightarrow> Some x)"
  by (induction xs) auto

lemma mounted_rule_endpoint:
  "r \<in> set (mounted_rules name prefix ds) \<Longrightarrow> CHR ''.'' \<in> set (endpoint r)"
  by (auto simp add: mounted_rules_def)

text \<open>
  In the application that \<open>create_app\<close> returns, a GET request for the root path never
  reaches \<open>api_index\<close>; it reaches \<open>index\<close> unless a rule of the blueprint takes it first.
\<close>

lemma dispatch_root:
  assumes "fst (create_app reg dbo people env_name w) = Inr app"
  shows "dispatch_request app ''GET'' ''/'' \<noteq> Some Api_index"
    and "find (\<lambda>r. rule_path r = ''/'' \<and> ''GET'' \<in> methods r)
           (mounted_rules (bp_name people) ''/'' (deferred people)) = None \<Longrightarrow>
         dispatch_request app ''GET'' ''/'' = Some Index"
proof -
  from create_app_returns_only_if [OF assms] obtain obj app1 where
    cfg: "entries reg env_name = Some obj" and ini: "fst (init_app dbo (configured obj) (db w)) = Inr ()"
    and reg: "register_rules (bp_name people) ''/'' (deferred people) (configured obj) = Inr app1"
    by blast
  from create_app_success [OF cfg ini reg] assms have app: "app = assembled obj people"
    by simp
  let ?P = "\<lambda>r. rule_path r = ''/'' \<and> ''GET'' \<in> methods r"
  let ?bp = "mounted_rules (bp_name people) ''/'' (deferred people)"
  let ?vfs = "bound_views (bp_name people) (deferred people) Map.empty"
  have only: "bp_only ?vfs"
    by (rule bp_only_bound_views) (simp add: bp_only_def)
  show "dispatch_request app ''GET'' ''/'' \<noteq> Some Api_index"
  proof (cases "find ?P ?bp")
    case None
    then show ?thesis
      by (simp add: dispatch_request_def match_request_def app assembled_def find_append_cases)
  next
    case (Some r)
    then have "r \<in> set ?bp"
      by (auto simp add: find_Some_iff)
    then have dot: "CHR ''.'' \<in> set (endpoint r)"
      by (rule mounted_rule_endpoint)
    then have "endpoint r \<noteq> ''api_index''" "endpoint r \<noteq> ''index''" "endpoint r \<noteq> ''health_check''"
      by auto
    moreover have "?vfs (endpoint r) \<noteq> Some Api_index"
      using only unfolding bp_only_def by auto
    ultimately show ?thesis using Some
      by (simp add: dispatch_request_def match_request_def app assembled_def find_append_cases)
  qed
  show "dispatch_request app ''GET'' ''/'' = Some Index" if "find ?P ?bp = None"
    using that by (simp add: dispatch_request_def match_request_def app assembled_def find_append_cases)
qed

section \<open>The claims\<close>

text \<open>
  C1. The claim: in every application returned by \<open>create_app\<close>, GET \<open>/\<close> is
  dispatched to the second handler registered for the root path, \<open>api_index\<close>, and
  answers with the structured payload. On the code, for the development environment and a
  blueprint with no root rule, the request is dispatched to \<open>index\<close>, the handler
  registered first, and the answer is the welcome string; \<open>api_index\<close> would return
  the structured payload but is not reached.
\<close>
theorem root_reaches_index_not_api_index:
  "\<exists>app w'.
     create_app example_registry (example_db (Inr ())) example_people ''development'' example_world
       = (Inr app, w') \<and>
     dispatch_request app ''GET'' ''/'' = Some Index \<and>
     dispatch_request app ''GET'' ''/'' \<noteq> Some Api_index \<and>
     full_dispatch_request (example_db (Inr ())) example_people_views ''GET'' ''/'' (app, w')
       = Some (Inr (Str welcome_text), (app, w')) \<and>
     fst (api_index (app, w')) = Inr (Tuple api_payload 200) \<and>
     Str welcome_text \<noteq> Tuple api_payload 200"
proof -
  have cfg: "entries example_registry ''development'' = Some ''Development''"
    by (simp add: example_registry_def)
  have ini: "fst (init_app (example_db (Inr ())) (configured ''Development'') (db example_world)) = Inr ()"
    by (simp add: example_db_def)
  have "consistent (deferred example_people)"
    by (simp add: consistent_def example_people_def)
  from blueprint_registers [OF this, where prefix = "''/''" and obj = "''Development''"] obtain app1 where
    reg: "register_rules (bp_name example_people) ''/'' (deferred example_people)
            (configured ''Development'') = Inr app1"
    by blast
  define app where "app = assembled ''Development'' example_people"
  from create_app_success [OF cfg ini reg] obtain w' where
    run: "create_app example_registry (example_db (Inr ())) example_people ''development'' example_world
            = (Inr app, w')"
    unfolding app_def by blast
  then have ret: "fst (create_app example_registry (example_db (Inr ())) example_people
                    ''development'' example_world) = Inr app"
    by simp
  have free: "find (\<lambda>r. rule_path r = ''/'' \<and> ''GET'' \<in> methods r)
           (mounted_rules (bp_name example_people) ''/'' (deferred example_people)) = None"
    by (simp add: example_people_def mounted_rules_def join_prefix_def)
  have d: "dispatch_request app ''GET'' ''/'' = Some Index"
    using dispatch_root(2) [OF ret free] .
  have "full_dispatch_request (example_db (Inr ())) example_people_views ''GET'' ''/'' (app, w')
          = Some (Inr (Str welcome_text), (app, w'))"
    using d by (simp add: full_dispatch_request_def call_view_def index_def)
  with run d show ?thesis
    by (simp add: api_index_def)
qed

text \<open>
  C2. When the statement \<open>SELECT 1\<close> succeeds, \<open>health_check\<close> returns status 200 and
  exactly the dict with status healthy, database connected and service titanic-api.
\<close>
theorem health_check_probe_succeeds:
  assumes "fst (session_execute dbo ''SELECT 1'' (db w)) = Inr ()"
  shows "fst (health_check dbo (app, w)) =
           Inr (Tuple (JObj [(''status'', JStr ''healthy''),
                             (''database'', JStr ''connected''),
                             (''service'', JStr ''titanic-api'')]) 200)"
  using assms
  by (cases "session_execute dbo ''SELECT 1'' (db w)")
     (simp add: health_check_def db_session_execute_def healthy_def)

theorem health_check_probe_succeeds_witness:
  "fst (session_execute (example_db (Inr ())) ''SELECT 1'' (db example_world)) = Inr () \<and>
   fst (health_check (example_db (Inr ())) (example_app, example_world)) =
           Inr (Tuple (JObj [(''status'', JStr ''healthy''),
                             (''database'', JStr ''connected''),
                             (''service'', JStr ''titanic-api'')]) 200)"
  using health_check_probe_succeeds [of "example_db (Inr ())" example_world example_app]
  by (simp add: example_db_def)

text \<open>
  The claim C3 speaks of any exception raised by the probe. An exception that is not an
  instance of \<open>Exception\<close>, such as \<open>SystemExit(1)\<close>, is not caught by the clause
  \<open>except Exception\<close>: it leaves the handler, and no 503 answer is produced.
\<close>
theorem health_check_uncaught_counterexample:
  "fst (session_execute (example_db (Inl (Exc False ''1''))) ''SELECT 1'' (db example_world))
     = Inl (Exc False ''1'') \<and>
   fst (health_check (example_db (Inl (Exc False ''1''))) (example_app, example_world))
     = Inl (Exc False ''1'') \<and>
   fst (health_check (example_db (Inl (Exc False ''1''))) (example_app, example_world))
     \<noteq> Inr (Tuple (JObj [(''status'', JStr ''unhealthy''),
                          (''database'', JStr ''disconnected''),
                          (''error'', JStr (str (Exc False ''1'')))]) 503)"
  by (simp add: health_check_def db_session_execute_def example_db_def)

text \<open>
  C3. When the statement \<open>SELECT 1\<close> raises an exception \<open>e\<close>: if \<open>e\<close> is an instance
  of \<open>Exception\<close>, \<open>health_check\<close> catches it and returns status 503 and the dict with
  status unhealthy, database disconnected and error \<open>str(e)\<close>; if it is not,
  \<open>health_check\<close> does not catch it and raises \<open>e\<close> itself. In both cases the statement
  is executed once and not again.
\<close>
theorem health_check_probe_raises:
  assumes "fst (session_execute dbo ''SELECT 1'' (db w)) = Inl e"
  shows "fst (health_check dbo (app, w)) =
           (if isinstance_Exception e
            then Inr (Tuple (JObj [(''status'', JStr ''unhealthy''),
                                   (''database'', JStr ''disconnected''),
                                   (''error'', JStr (str e))]) 503)
            else Inl e) \<and>
         calls (snd (snd (health_check dbo (app, w)))) = calls w @ [Session_execute ''SELECT 1'']"
  using assms
  by (cases "session_execute dbo ''SELECT 1'' (db w)")
     (simp add: health_check_def db_session_execute_def unhealthy_def log_def)

theorem health_check_probe_raises_witness:
  "fst (session_execute (example_db (Inl (Exc True ''connection refused''))) ''SELECT 1'' (db example_world))
     = Inl (Exc True ''connection refused'') \<and>
   fst (health_check (example_db (Inl (Exc True ''connection refused''))) (example_app, example_world)) =
           Inr (Tuple (JObj [(''status'', JStr ''unhealthy''),
                             (''database'', JStr ''disconnected''),
                             (''error'', JStr ''connection refused'')]) 503) \<and>
   calls (snd (snd (health_check (example_db (Inl (Exc True ''connection refused'')))
             (example_app, example_world)))) = [Session_execute ''SELECT 1''] \<and>
   fst (session_execute (example_db (Inl (Exc False ''interrupted''))) ''SELECT 1'' (db example_world))
     = Inl (Exc False ''interrupted'') \<and>
   fst (health_check (example_db (Inl (Exc False ''interrupted''))) (example_app, example_world)) =
           Inl (Exc False ''interrupted'') \<and>
   calls (snd (snd (health_check (example_db (Inl (Exc False ''interrupted'')))
             (example_app, example_world)))) = [Session_execute ''SELECT 1'']"
  using health_check_probe_raises [of "example_db (Inl (Exc True ''connection refused''))"
      example_world "Exc True ''connection refused''" example_app]
    health_check_probe_raises [of "example_db (Inl (Exc False ''interrupted''))"
      example_world "Exc False ''interrupted''" example_app]
  by (simp add: example_db_def example_world_def)

text \<open>
  The claim C4 says that the error entry is never empty. An exception constructed without
  arguments, such as \<open>Exception()\<close>, has the empty string as \<open>str(e)\<close>, and the error
  entry of the 503 answer is then the empty string.
\<close>
theorem health_check_empty_error_counterexample:
  "fst (session_execute (example_db (Inl (Exc True []))) ''SELECT 1'' (db example_world))
     = Inl (Exc True []) \<and>
   fst (health_check (example_db (Inl (Exc True []))) (example_app, example_world)) =
     Inr (Tuple (JObj [(''status'', JStr ''unhealthy''),
                       (''database'', JStr ''disconnected''),
                       (''error'', JStr [])]) 503) \<and>
   field ''error'' (Tuple (JObj [(''status'', JStr ''unhealthy''),
                       (''database'', JStr ''disconnected''),
                       (''error'', JStr [])]) 503) = Some (JStr [])"
  by (simp add: health_check_def db_session_execute_def example_db_def unhealthy_def)

text \<open>
  C4. When the statement \<open>SELECT 1\<close> raises an exception \<open>e\<close> that is an instance of
  \<open>Exception\<close>, the answer has status 503, its status entry is unhealthy and its error
  entry is the string \<open>str(e)\<close>, which is non-empty exactly when \<open>str(e)\<close> is.
\<close>
theorem health_check_error_field:
  assumes "fst (session_execute dbo ''SELECT 1'' (db w)) = Inl e"
    and "isinstance_Exception e"
  shows "\<exists>rv. fst (health_check dbo (app, w)) = Inr rv \<and>
           status_code rv = 503 \<and>
           field ''status'' rv = Some (JStr ''unhealthy'') \<and>
           field ''error'' rv = Some (JStr (str e)) \<and>
           (str e \<noteq> [] \<longleftrightarrow> field ''error'' rv \<noteq> Some (JStr []))"
  using assms
  by (cases "session_execute dbo ''SELECT 1'' (db w)")
     (simp add: health_check_def db_session_execute_def unhealthy_def)

theorem health_check_error_field_witness:
  "fst (session_execute (example_db (Inl (Exc True ''timeout''))) ''SELECT 1'' (db example_world))
     = Inl (Exc True ''timeout'') \<and>
   isinstance_Exception (Exc True ''timeout'') \<and>
   (\<exists>rv. fst (health_check (example_db (Inl (Exc True ''timeout''))) (example_app, example_world)) = Inr rv \<and>
           status_code rv = 503 \<and>
           field ''status'' rv = Some (JStr ''unhealthy'') \<and>
           field ''error'' rv = Some (JStr ''timeout''))"
  using health_check_error_field [of "example_db (Inl (Exc True ''timeout''))"
      example_world "Exc True ''timeout''" example_app]
  by (auto simp add: example_db_def)




text \<open>
  C6. For an environment name that is not a key of the registry, \<open>create_app\<close> raises
  the lookup error of the registry: the error reaches the caller as it was raised.
\<close>
theorem create_app_unknown_env:
  assumes "entries app_config env_name = None"
  shows "fst (create_app app_config dbo people env_name w) = Inl (lookup_failure app_config env_name)"
  using assms
  by (simp add: create_app_def bind_def Flask_def getitem_def)

theorem create_app_unknown_env_witness:
  "entries example_registry ''staging'' = None \<and>
   fst (create_app example_registry (example_db (Inr ())) example_people ''staging'' example_world)
     = Inl (Exc True ([CHR 0x27] @ ''staging'' @ [CHR 0x27]))"
  using create_app_unknown_env [of example_registry "''staging''" "example_db (Inr ())"
      example_people example_world]
  by (simp add: example_registry_def)

text \<open>
  C7. Every run of \<open>create_app\<close> that returns has had these effects, in this order. The
  application is created; the settings object found under the environment name is applied;
  the database handle is initialised against the application as it then is, configured and
  without rules; the blueprint is mounted under the prefix \<open>/\<close>, which puts its rules
  first in the URL map and binds its endpoints; the three views are registered, \<open>index\<close>,
  \<open>health_check\<close> and \<open>api_index\<close> in this order after the rules of the blueprint; and
  the application so assembled is the one returned. The calls recorded are these and no
  others.
\<close>
theorem create_app_call_order:
  assumes "fst (create_app app_config dbo people env_name w) = Inr app"
  shows "\<exists>obj. entries app_config env_name = Some obj \<and>
           app = assembled obj people \<and>
           snd (create_app app_config dbo people env_name w) =
             w\<lparr>db := snd (init_app dbo (configured obj) (db w)),
               calls := calls w @
                 [Flask_new, Config_from_object obj, Db_init_app,
                  Register_blueprint (bp_name people) ''/'',
                  Route ''/'' [''GET''] ''index'', Route ''/health'' [''GET''] ''health_check'',
                  Route ''/'' [''GET''] ''api_index'']\<rparr>"
proof -
  from create_app_returns_only_if [OF assms] obtain obj app1 where
    cfg: "entries app_config env_name = Some obj"
    and ini: "fst (init_app dbo (configured obj) (db w)) = Inr ()"
    and reg: "register_rules (bp_name people) ''/'' (deferred people) (configured obj) = Inr app1"
    by blast
  note run = create_app_success [OF cfg ini reg]
  from run assms have "app = assembled obj people" by simp
  with cfg run show ?thesis by simp
qed

theorem create_app_call_order_witness:
  "fst (create_app example_registry (example_db (Inr ())) example_people ''development'' example_world)
     = Inr (assembled ''Development'' example_people) \<and>
   snd (create_app example_registry (example_db (Inr ())) example_people ''development'' example_world)
     = \<lparr>db = 100,
        calls = [Flask_new, Config_from_object ''Development'', Db_init_app,
                 Register_blueprint ''people'' ''/'',
                 Route ''/'' [''GET''] ''index'', Route ''/health'' [''GET''] ''health_check'',
                 Route ''/'' [''GET''] ''api_index'']\<rparr>"
proof -
  have cfg: "entries example_registry ''development'' = Some ''Development''"
    by (simp add: example_registry_def)
  have ini: "fst (init_app (example_db (Inr ())) (configured ''Development'') (db example_world)) = Inr ()"
    by (simp add: example_db_def)
  have "consistent (deferred example_people)"
    by (simp add: consistent_def example_people_def)
  from blueprint_registers [OF this, where prefix = "''/''" and obj = "''Development''"] obtain app1 where
    reg: "register_rules (bp_name example_people) ''/'' (deferred example_people)
            (configured ''Development'') = Inr app1"
    by blast
  have ret: "fst (create_app example_registry (example_db (Inr ())) example_people ''development''
               example_world) = Inr (assembled ''Development'' example_people)"
    using create_app_success [OF cfg ini reg] by simp
  from create_app_call_order [OF ret] cfg ret show ?thesis
    by (auto simp add: example_db_def example_people_def example_world_def)
qed

text \<open>
  C8. In every case (the statement succeeds, raises an exception that is caught, or raises
  one that is not), \<open>health_check\<close> leaves the application object, and with it the
  configuration, as it was; the database and the record of calls change by one execution of
  \<open>SELECT 1\<close> and by nothing else.
\<close>
theorem health_check_frame:
  "snd (health_check dbo (app, w)) =
     (app, w\<lparr>db := snd (session_execute dbo ''SELECT 1'' (db w)),
             calls := calls w @ [Session_execute ''SELECT 1'']\<rparr>)"
  by (cases "session_execute dbo ''SELECT 1'' (db w)")
     (auto simp add: health_check_def db_session_execute_def log_def split: sum.splits)

text \<open>
  The claim C9 says that \<open>health_check\<close> never lets an exception through and that every
  request ends in one of two answers. When the probe raises \<open>KeyboardInterrupt()\<close>, which
  is not an instance of \<open>Exception\<close>, the handler raises it and gives neither answer.
\<close>
theorem health_check_propagates_counterexample:
  "fst (health_check (example_db (Inl (Exc False []))) (example_app, example_world))
     = Inl (Exc False []) \<and>
   fst (health_check (example_db (Inl (Exc False []))) (example_app, example_world))
     \<noteq> Inr (Tuple healthy 200) \<and>
   fst (health_check (example_db (Inl (Exc False []))) (example_app, example_world))
     \<noteq> Inr (Tuple (unhealthy (Exc False [])) 503)"
  by (simp add: health_check_def db_session_execute_def example_db_def)

text \<open>
  C9. The result of \<open>health_check\<close> is decided by the probe alone. When the probe returns,
  the result is the healthy dict with status 200; when it raises an instance of
  \<open>Exception\<close>, the result is the unhealthy dict with status 503; when it raises an
  exception that is not an instance of \<open>Exception\<close>, the handler raises that exception.
  So an exception that leaves the handler is never an instance of \<open>Exception\<close>, and
  whenever the handler returns, the status is 200 exactly when the status entry of the dict
  is healthy.
\<close>
theorem health_check_shapes:
  "fst (health_check dbo (app, w)) =
     (case fst (session_execute dbo ''SELECT 1'' (db w)) of
        Inr u \<Rightarrow> Inr (Tuple healthy 200)
      | Inl e \<Rightarrow> if isinstance_Exception e then Inr (Tuple (unhealthy e) 503) else Inl e) \<and>
   (case fst (health_check dbo (app, w)) of
      Inr rv \<Rightarrow> (status_code rv = 200 \<longleftrightarrow> field ''status'' rv = Some (JStr ''healthy''))
    | Inl e \<Rightarrow> \<not> isinstance_Exception e)"
  by (cases "session_execute dbo ''SELECT 1'' (db w)")
     (auto simp add: health_check_def db_session_execute_def healthy_def unhealthy_def split: sum.splits)

theorem health_check_shapes_witness:
  "fst (health_check (example_db (Inr ())) (example_app, example_world)) = Inr (Tuple healthy 200) \<and>
   fst (health_check (example_db (Inl (Exc True ''gone''))) (example_app, example_world))
     = Inr (Tuple (unhealthy (Exc True ''gone'')) 503) \<and>
   fst (health_check (example_db (Inl (Exc False ''gone''))) (example_app, example_world))
     = Inl (Exc False ''gone'')"
  using health_check_shapes [of "example_db (Inr ())" example_app example_world]
    health_check_shapes [of "example_db (Inl (Exc True ''gone''))" example_app example_world]
    health_check_shapes [of "example_db (Inl (Exc False ''gone''))" example_app example_world]
  by (simp add: example_db_def)

text \<open>
  C10. When the lookup \<open>app_config[env_name]\<close> raises, \<open>create_app\<close> raises there:
  the only call made is the creation of the application, the database is as it was (its
  \<open>init_app\<close> has not run), neither the blueprint nor a view has been registered, and no
  application is returned.
\<close>
theorem create_app_lookup_raises_first:
  assumes "entries app_config env_name = None"
  shows "create_app app_config dbo people env_name w =
           (Inl (lookup_failure app_config env_name), w\<lparr>calls := calls w @ [Flask_new]\<rparr>)"
  using assms
  by (simp add: create_app_def bind_def Flask_def getitem_def log_def)

theorem create_app_lookup_raises_first_witness:
  "entries example_registry ''test'' = None \<and>
   create_app example_registry (example_db (Inr ())) example_people ''test'' example_world =
     (Inl (Exc True ([CHR 0x27] @ ''test'' @ [CHR 0x27])), \<lparr>db = 0, calls = [Flask_new]\<rparr>)"
  using create_app_lookup_raises_first [of example_registry "''test''" "example_db (Inr ())"
      example_people example_world]
  by (simp add: example_registry_def example_world_def)

end
